theory Spec2Isabelle
  imports Main
begin

section \<open>Values held by an \<open>interface{}\<close>\<close>

text \<open>
  Every validator of \<^verbatim>\<open>validation.go\<close> takes an \<^verbatim>\<open>interface{}\<close> and inspects it with
  \<^verbatim>\<open>== nil\<close>, \<^verbatim>\<open>== ""\<close>, type assertions and \<^verbatim>\<open>reflect\<close>. The model keeps of a Go value
  what these operations can observe: its kind, whether its dynamic type is exactly
  \<^verbatim>\<open>string\<close> or \<^verbatim>\<open>*multipart.FileHeader\<close>, its length, and for a struct its fields.
\<close>

datatype Kind =
    reflect_Invalid | reflect_Bool
  | reflect_Int | reflect_Int8 | reflect_Int16 | reflect_Int32 | reflect_Int64
  | reflect_Uint | reflect_Uint8 | reflect_Uint16 | reflect_Uint32 | reflect_Uint64
  | reflect_Uintptr | reflect_Float32 | reflect_Float64
  | reflect_Complex64 | reflect_Complex128
  | reflect_Array | reflect_Chan | reflect_Func | reflect_Interface | reflect_Map
  | reflect_Ptr | reflect_Slice | reflect_String | reflect_Struct
  | reflect_UnsafePointer

text \<open>The integer family, and the kinds of which the code observes nothing but the kind.\<close>

datatype int_type =
    T_int | T_int8 | T_int16 | T_int32 | T_int64
  | T_uint | T_uint8 | T_uint16 | T_uint32 | T_uint64

datatype opaque_type =
    T_bool | T_uintptr | T_float32 | T_float64 | T_complex64 | T_complex128
  | T_array | T_chan | T_func | T_unsafe_pointer

text \<open>
  \<^verbatim>\<open>multipart.FileHeader\<close>: the exported fields. \<^verbatim>\<open>Header\<close> is a
  \<^verbatim>\<open>textproto.MIMEHeader\<close>, a map from canonical keys to lists of values.
\<close>

record FileHeader =
  Filename :: string
  Header :: "(string \<times> string list) list"
  Size :: int

text \<open>
  A struct is the list of its fields in declaration order, each with the result of
  \<^verbatim>\<open>Tag.Get("json")\<close> (empty when the field has no such tag), whether the field is exported,
  and its value as \<^verbatim>\<open>Interface()\<close> returns it (\<open>VNil\<close> for an interface-typed field
  that holds nil). \<open>VNamedString\<close> is a value of a defined type whose underlying type is
  \<^verbatim>\<open>string\<close>: its kind is \<^verbatim>\<open>reflect.String\<close>, but it is not a \<^verbatim>\<open>string\<close>.
  \<open>VPtr None\<close> is a nil pointer, \<open>VPtrToInterface\<close> a pointer to a variable of interface
  type, \<open>VFile None\<close> a nil \<^verbatim>\<open>*multipart.FileHeader\<close>. Values are finite trees, so a
  pointer chain ends.
\<close>

datatype gvalue =
    VNil
  | VString string
  | VNamedString string
  | VInt int_type int
  | VOpaque opaque_type
  | VSlice "gvalue list"
  | VMap "(gvalue \<times> gvalue) list"
  | VStruct "(string \<times> bool \<times> gvalue) list"
  | VPtr "gvalue option"
  | VPtrToInterface
  | VFile "FileHeader option"

datatype panic =
    InterfaceConversion
  | NilPointerDereference
  | UnexportedField

fun int_type_Kind :: "int_type \<Rightarrow> Kind" where
  "int_type_Kind T_int = reflect_Int"
| "int_type_Kind T_int8 = reflect_Int8"
| "int_type_Kind T_int16 = reflect_Int16"
| "int_type_Kind T_int32 = reflect_Int32"
| "int_type_Kind T_int64 = reflect_Int64"
| "int_type_Kind T_uint = reflect_Uint"
| "int_type_Kind T_uint8 = reflect_Uint8"
| "int_type_Kind T_uint16 = reflect_Uint16"
| "int_type_Kind T_uint32 = reflect_Uint32"
| "int_type_Kind T_uint64 = reflect_Uint64"

fun opaque_type_Kind :: "opaque_type \<Rightarrow> Kind" where
  "opaque_type_Kind T_bool = reflect_Bool"
| "opaque_type_Kind T_uintptr = reflect_Uintptr"
| "opaque_type_Kind T_float32 = reflect_Float32"
| "opaque_type_Kind T_float64 = reflect_Float64"
| "opaque_type_Kind T_complex64 = reflect_Complex64"
| "opaque_type_Kind T_complex128 = reflect_Complex128"
| "opaque_type_Kind T_array = reflect_Array"
| "opaque_type_Kind T_chan = reflect_Chan"
| "opaque_type_Kind T_func = reflect_Func"
| "opaque_type_Kind T_unsafe_pointer = reflect_UnsafePointer"

text \<open>
  \<^verbatim>\<open>reflect.ValueOf(v).Kind()\<close>; for a non-nil \<open>v\<close> also \<^verbatim>\<open>reflect.TypeOf(v).Kind()\<close>,
  which every validator calls only behind its \<^verbatim>\<open>value == nil\<close> guard.
\<close>

fun Kind_of :: "gvalue \<Rightarrow> Kind" where
  "Kind_of VNil = reflect_Invalid"
| "Kind_of (VString s) = reflect_String"
| "Kind_of (VNamedString s) = reflect_String"
| "Kind_of (VInt t i) = int_type_Kind t"
| "Kind_of (VOpaque t) = opaque_type_Kind t"
| "Kind_of (VSlice xs) = reflect_Slice"
| "Kind_of (VMap kvs) = reflect_Map"
| "Kind_of (VStruct fs) = reflect_Struct"
| "Kind_of (VPtr p) = reflect_Ptr"
| "Kind_of VPtrToInterface = reflect_Ptr"
| "Kind_of (VFile p) = reflect_Ptr"

text \<open>\<^verbatim>\<open>reflect.ValueOf(value).Len()\<close>, called on slices and maps only.\<close>

fun Len :: "gvalue \<Rightarrow> int" where
  "Len (VSlice xs) = int (length xs)"
| "Len (VMap kvs) = int (length kvs)"
| "Len v = 0"

text \<open>
  The type assertions \<^verbatim>\<open>value.(string)\<close> and \<^verbatim>\<open>value.(*multipart.FileHeader)\<close>: \<open>None\<close>
  when the dynamic type is another one. The two-result form reads \<open>None\<close> as
  \<^verbatim>\<open>ok == false\<close>, the one-result form panics.
\<close>

fun assert_string :: "gvalue \<Rightarrow> string option" where
  "assert_string (VString s) = Some s"
| "assert_string v = None"

fun assert_FileHeader :: "gvalue \<Rightarrow> FileHeader option option" where
  "assert_FileHeader (VFile p) = Some p"
| "assert_FileHeader v = None"

definition must_string :: "gvalue \<Rightarrow> panic + string" where
  "must_string value =
     (case assert_string value of None \<Rightarrow> Inl InterfaceConversion | Some s \<Rightarrow> Inr s)"

section \<open>The rule engine\<close>

record ValidationErrorItem =
  Field :: string
  Message :: string

type_synonym ValidationFunc = "gvalue \<Rightarrow> panic + ValidationErrorItem"

record ValidationRule =
  rule_Field :: string
  Description :: string
  Validations :: "ValidationFunc list"

text \<open>The zero value \<^verbatim>\<open>ValidationErrorItem{}\<close>, and an item that carries a message only.\<close>

definition no_error :: ValidationErrorItem where
  "no_error = \<lparr>Field = [], Message = []\<rparr>"

definition error_message :: "string \<Rightarrow> ValidationErrorItem" where
  "error_message m = \<lparr>Field = [], Message = m\<rparr>"

text \<open>
  The fields of the struct inside a file header, as \<^verbatim>\<open>reflect\<close> enumerates them. None has
  a json tag; the unexported fields that follow \<^verbatim>\<open>Size\<close> are untagged too, so the field
  loop never reaches past the first one.
\<close>

definition FileHeader_fields :: "FileHeader \<Rightarrow> (string \<times> bool \<times> gvalue) list" where
  "FileHeader_fields fh =
     [([], True, VString (Filename fh)),
      ([], True, VMap (map (\<lambda>(k, vs). (VString k, VSlice (map VString vs))) (Header fh))),
      ([], True, VInt T_int64 (Size fh))]"

text \<open>
  A \<^verbatim>\<open>reflect.Value\<close>: the zero Value (of \<^verbatim>\<open>reflect.ValueOf(nil)\<close> and of \<^verbatim>\<open>Elem()\<close> on a
  nil pointer), a Value of interface kind (\<^verbatim>\<open>Elem()\<close> on a pointer to an interface-typed
  variable), or a Value holding a concrete Go value.
\<close>

datatype reflect_Value = Invalid_Value | Interface_Value | Concrete gvalue

fun Value_Kind :: "reflect_Value \<Rightarrow> Kind" where
  "Value_Kind Invalid_Value = reflect_Invalid"
| "Value_Kind Interface_Value = reflect_Interface"
| "Value_Kind (Concrete v) = Kind_of v"

text \<open>
  \<^verbatim>\<open>val := reflect.ValueOf(data)\<close> followed by the loop
  \<^verbatim>\<open>for val.Kind() == reflect.Ptr { val = val.Elem() }\<close>: recursion on the pointer chain.
\<close>

fun deref :: "gvalue \<Rightarrow> reflect_Value" where
  "deref VNil = Invalid_Value"
| "deref (VPtr None) = Invalid_Value"
| "deref (VPtr (Some v)) = deref v"
| "deref VPtrToInterface = Interface_Value"
| "deref (VFile None) = Invalid_Value"
| "deref (VFile (Some fh)) = Concrete (VStruct (FileHeader_fields fh))"
| "deref v = Concrete v"

text \<open>The fields that \<^verbatim>\<open>val.NumField()\<close>, \<^verbatim>\<open>typ.Field(i)\<close> and \<^verbatim>\<open>val.Field(i)\<close> enumerate.\<close>

fun struct_fields :: "reflect_Value \<Rightarrow> (string \<times> bool \<times> gvalue) list" where
  "struct_fields (Concrete (VStruct fs)) = fs"
| "struct_fields v = []"

text \<open>
  The loop over the fields: the first field whose json tag equals \<open>field\<close> decides.
  \<^verbatim>\<open>Interface()\<close> panics on a Value obtained from an unexported field.
\<close>

fun field_by_tag :: "(string \<times> bool \<times> gvalue) list \<Rightarrow> string \<Rightarrow> panic + gvalue" where
  "field_by_tag [] field = Inr VNil"
| "field_by_tag ((tag, exported, v) # fs) field =
     (if tag = field then (if exported then Inr v else Inl UnexportedField)
      else field_by_tag fs field)"

definition getFieldByJsonTag :: "gvalue \<Rightarrow> string \<Rightarrow> panic + gvalue" where
  "getFieldByJsonTag data field =
     (let val = deref data in
      if Value_Kind val \<noteq> reflect_Struct then Inr VNil
      else field_by_tag (struct_fields val) field)"

text \<open>
  \<^verbatim>\<open>getField\<close> returns the pair \<^verbatim>\<open>(interface{}, error)\<close>; the error is its message,
  \<^verbatim>\<open>fmt.Errorf("field not found: %s", field)\<close>.
\<close>

definition getField :: "gvalue \<Rightarrow> string \<Rightarrow> panic + (gvalue \<times> string option)" where
  "getField data field =
     (case getFieldByJsonTag data field of
        Inl p \<Rightarrow> Inl p
      | Inr value \<Rightarrow>
          if value = VNil then Inr (VNil, Some (''field not found: '' @ field))
          else Inr (value, None))"

text \<open>
  The inner loop of \<^verbatim>\<open>Validate\<close> over \<^verbatim>\<open>rule.Validations\<close>, with the slice
  \<^verbatim>\<open>validationErrs\<close> passed along. A validator that panics ends the whole call.
\<close>

fun run_validations ::
  "string \<Rightarrow> gvalue \<Rightarrow> ValidationFunc list \<Rightarrow> ValidationErrorItem list
     \<Rightarrow> panic + ValidationErrorItem list" where
  "run_validations field fieldValue [] validationErrs = Inr validationErrs"
| "run_validations field fieldValue (validation # rest) validationErrs =
     (case validation fieldValue of
        Inl p \<Rightarrow> Inl p
      | Inr validationErr \<Rightarrow>
          if validationErr \<noteq> no_error
          then run_validations field fieldValue rest
                 (validationErrs @ [validationErr\<lparr>Field := field\<rparr>])
          else run_validations field fieldValue rest validationErrs)"

text \<open>The outer loop over the rules.\<close>

fun Validate_rules ::
  "gvalue \<Rightarrow> ValidationRule list \<Rightarrow> ValidationErrorItem list
     \<Rightarrow> panic + ValidationErrorItem list" where
  "Validate_rules data [] validationErrs = Inr validationErrs"
| "Validate_rules data (rule # rules) validationErrs =
     (case getField data (rule_Field rule) of
        Inl p \<Rightarrow> Inl p
      | Inr (fieldValue, Some err) \<Rightarrow>
          Validate_rules data rules
            (validationErrs @ [\<lparr>Field = rule_Field rule, Message = err\<rparr>])
      | Inr (fieldValue, None) \<Rightarrow>
          (case run_validations (rule_Field rule) fieldValue (Validations rule) validationErrs of
             Inl p \<Rightarrow> Inl p
           | Inr validationErrs' \<Rightarrow> Validate_rules data rules validationErrs'))"

definition Validate :: "gvalue \<Rightarrow> ValidationRule list \<Rightarrow> panic + ValidationErrorItem list" where
  "Validate data rules = Validate_rules data rules []"

section \<open>The validators\<close>

text \<open>\<^verbatim>\<open>%d\<close> of \<^verbatim>\<open>fmt.Sprintf\<close>: the decimal digits, after a minus sign when negative.\<close>

definition digit_char :: "nat \<Rightarrow> char" where
  "digit_char d = char_of (48 + d)"

fun decimal :: "nat \<Rightarrow> string" where
  "decimal n = (if n < 10 then [digit_char n] else decimal (n div 10) @ [digit_char (n mod 10)])"

declare decimal.simps [simp del]

definition Sprintf_d :: "int \<Rightarrow> string" where
  "Sprintf_d i = (if i < 0 then CHR ''-'' # decimal (nat (- i)) else decimal (nat i))"

definition RequiredValidation :: ValidationFunc where
  "RequiredValidation value =
     (if value = VNil \<or> value = VString [] then Inr (error_message ''Field is required'')
      else case Kind_of value of
        reflect_String \<Rightarrow>
          (case must_string value of
             Inl p \<Rightarrow> Inl p
           | Inr s \<Rightarrow> if s = [] then Inr (error_message ''Field is required'') else Inr no_error)
      | reflect_Slice \<Rightarrow>
          if Len value = 0 then Inr (error_message ''Field is required'') else Inr no_error
      | reflect_Map \<Rightarrow>
          if Len value = 0 then Inr (error_message ''Field is required'') else Inr no_error
      | _ \<Rightarrow> Inr no_error)"

definition MinLengthValidation :: "int \<Rightarrow> ValidationFunc" where
  "MinLengthValidation minLength value =
     (if value = VNil \<or> value = VString [] then Inr no_error
      else case Kind_of value of
        reflect_String \<Rightarrow>
          (case must_string value of
             Inl p \<Rightarrow> Inl p
           | Inr s \<Rightarrow>
               if int (length s) < minLength
               then Inr (error_message
                      (''Field must be at least '' @ Sprintf_d minLength @ '' characters long''))
               else Inr no_error)
      | reflect_Slice \<Rightarrow>
          if Len value < minLength
          then Inr (error_message
                 (''Field must have at least '' @ Sprintf_d minLength @ '' items''))
          else Inr no_error
      | reflect_Map \<Rightarrow>
          if Len value < minLength
          then Inr (error_message
                 (''Field must have at least '' @ Sprintf_d minLength @ '' items''))
          else Inr no_error
      | _ \<Rightarrow> Inr no_error)"

definition MaxLengthValidation :: "int \<Rightarrow> ValidationFunc" where
  "MaxLengthValidation maxLength value =
     (if value = VNil \<or> value = VString [] then Inr no_error
      else case Kind_of value of
        reflect_String \<Rightarrow>
          (case must_string value of
             Inl p \<Rightarrow> Inl p
           | Inr s \<Rightarrow>
               if int (length s) > maxLength
               then Inr (error_message
                      (''Field must not exceed '' @ Sprintf_d maxLength @ '' characters''))
               else Inr no_error)
      | reflect_Slice \<Rightarrow>
          if Len value > maxLength
          then Inr (error_message
                 (''Field must not have more than '' @ Sprintf_d maxLength @ '' items''))
          else Inr no_error
      | reflect_Map \<Rightarrow>
          if Len value > maxLength
          then Inr (error_message
                 (''Field must not have more than '' @ Sprintf_d maxLength @ '' items''))
          else Inr no_error
      | _ \<Rightarrow> Inr no_error)"

section \<open>Regular expressions\<close>

text \<open>
  The patterns of the source are all of the form \<^verbatim>\<open>^...$\<close>, built from literals, classes of
  ASCII characters, alternation and repetition, so \<^verbatim>\<open>MatchString\<close> decides whether the
  whole string belongs to the pattern. A class is a list of inclusive character ranges.
\<close>

datatype regexp =
    Nothing
  | Epsilon
  | Class "(char \<times> char) list"
  | Seq regexp regexp
  | Alt regexp regexp
  | Star regexp

fun in_class :: "char \<Rightarrow> (char \<times> char) list \<Rightarrow> bool" where
  "in_class c [] = False"
| "in_class c ((lo, hi) # rs) =
     (((of_char lo :: nat) \<le> of_char c \<and> (of_char c :: nat) \<le> of_char hi) \<or> in_class c rs)"

fun nullable :: "regexp \<Rightarrow> bool" where
  "nullable Nothing = False"
| "nullable Epsilon = True"
| "nullable (Class rs) = False"
| "nullable (Seq r s) = (nullable r \<and> nullable s)"
| "nullable (Alt r s) = (nullable r \<or> nullable s)"
| "nullable (Star r) = True"

text \<open>The derivative of a pattern by one character.\<close>

fun deriv :: "char \<Rightarrow> regexp \<Rightarrow> regexp" where
  "deriv c Nothing = Nothing"
| "deriv c Epsilon = Nothing"
| "deriv c (Class rs) = (if in_class c rs then Epsilon else Nothing)"
| "deriv c (Seq r s) =
     (if nullable r then Alt (Seq (deriv c r) s) (deriv c s) else Seq (deriv c r) s)"
| "deriv c (Alt r s) = Alt (deriv c r) (deriv c s)"
| "deriv c (Star r) = Seq (deriv c r) (Star r)"

fun Regexp_MatchString :: "regexp \<Rightarrow> string \<Rightarrow> bool" where
  "Regexp_MatchString re [] = nullable re"
| "Regexp_MatchString re (c # cs) = Regexp_MatchString (deriv c re) cs"

text \<open>
  What a pattern denotes, as a set of strings; the matcher is shown below to decide
  membership in it.
\<close>

inductive_set repetitions :: "string set \<Rightarrow> string set" for L :: "string set" where
  no_repetition: "[] \<in> repetitions L"
| one_more: "u \<in> L \<Longrightarrow> v \<in> repetitions L \<Longrightarrow> u @ v \<in> repetitions L"

fun strings_of :: "regexp \<Rightarrow> string set" where
  "strings_of Nothing = {}"
| "strings_of Epsilon = {[]}"
| "strings_of (Class rs) = {[c] | c. in_class c rs}"
| "strings_of (Seq r s) = {u @ v | u v. u \<in> strings_of r \<and> v \<in> strings_of s}"
| "strings_of (Alt r s) = strings_of r \<union> strings_of s"
| "strings_of (Star r) = repetitions (strings_of r)"

text \<open>
  The package-level \<^verbatim>\<open>regexp.MatchString(pattern, s)\<close> returns an error for a pattern that
  does not compile; the patterns of this file all compile.
\<close>

definition regexp_MatchString :: "regexp \<Rightarrow> string \<Rightarrow> bool \<times> string option" where
  "regexp_MatchString re s = (Regexp_MatchString re s, None)"

text \<open>The building blocks of the patterns.\<close>

definition one_of :: "string \<Rightarrow> (char \<times> char) list" where
  "one_of cs = map (\<lambda>c. (c, c)) cs"

fun literal :: "string \<Rightarrow> regexp" where
  "literal [] = Epsilon"
| "literal (c # cs) = Seq (Class [(c, c)]) (literal cs)"

definition one_or_more :: "regexp \<Rightarrow> regexp" where
  "one_or_more r = Seq r (Star r)"

definition optional :: "regexp \<Rightarrow> regexp" where
  "optional r = Alt r Epsilon"

fun exactly :: "nat \<Rightarrow> regexp \<Rightarrow> regexp" where
  "exactly 0 r = Epsilon"
| "exactly (Suc n) r = Seq r (exactly n r)"

fun at_most :: "nat \<Rightarrow> regexp \<Rightarrow> regexp" where
  "at_most 0 r = Epsilon"
| "at_most (Suc n) r = optional (Seq r (at_most n r))"

definition digit_class :: "(char \<times> char) list" where
  "digit_class = [(CHR ''0'', CHR ''9'')]"

definition word_class :: "(char \<times> char) list" where
  "word_class = [(CHR ''0'', CHR ''9''), (CHR ''A'', CHR ''Z''), (CHR ''_'', CHR ''_''),
                 (CHR ''a'', CHR ''z'')]"

definition letter_class :: "(char \<times> char) list" where
  "letter_class = [(CHR ''a'', CHR ''z''), (CHR ''A'', CHR ''Z'')]"

text \<open>\<^verbatim>\<open>^[a-zA-Z0-9._%+\-]+@[a-zA-Z0-9.\-]+\.[a-zA-Z]{2,}$\<close>\<close>

definition emailRegex :: regexp where
  "emailRegex =
     Seq (one_or_more (Class (letter_class @ digit_class @ one_of ''._%+-'')))
    (Seq (literal ''@'')
    (Seq (one_or_more (Class (letter_class @ digit_class @ one_of ''.-'')))
    (Seq (literal ''.'')
    (Seq (exactly 2 (Class letter_class)) (Star (Class letter_class))))))"

text \<open>\<^verbatim>\<open>^\+[1-9]\d{1,14}$\<close>\<close>

definition phoneRegex :: regexp where
  "phoneRegex =
     Seq (literal ''+'')
    (Seq (Class [(CHR ''1'', CHR ''9'')])
    (Seq (Class digit_class) (at_most 13 (Class digit_class))))"

text \<open>\<^verbatim>\<open>^(http|https)://[\w\-_]+(\.[\w\-_]+)+([\w\-\.,@?^=%&:/~\+#]*[\w\-\@?^=%&/~\+#])?$\<close>\<close>

definition url_pattern :: regexp where
  "url_pattern =
     Seq (Alt (literal ''http'') (literal ''https''))
    (Seq (literal ''://'')
    (Seq (one_or_more (Class (word_class @ one_of ''-_'')))
    (Seq (one_or_more (Seq (literal ''.'') (one_or_more (Class (word_class @ one_of ''-_'')))))
         (optional
            (Seq (Star (Class (word_class @ one_of ''-.,@?^=%&:/~+#'')))
                 (Class (word_class @ one_of ''-@?^=%&/~+#'')))))))"

text \<open>\<^verbatim>\<open>^[0-9]+$\<close>\<close>

definition numeric_pattern :: regexp where
  "numeric_pattern = one_or_more (Class [(CHR ''0'', CHR ''9'')])"

text \<open>\<^verbatim>\<open>^\d{4}-\d{2}-\d{2}$\<close>\<close>

definition date_pattern :: regexp where
  "date_pattern =
     Seq (exactly 4 (Class digit_class))
    (Seq (literal ''-'')
    (Seq (exactly 2 (Class digit_class))
    (Seq (literal ''-'')
         (exactly 2 (Class digit_class)))))"

section \<open>Library functions of Go\<close>

text \<open>
  \<^verbatim>\<open>time.Parse("2006-01-02", s)\<close>, from Go's package \<^verbatim>\<open>time\<close>: four digits of year, two of
  month and two of day, separated by \<^verbatim>\<open>-\<close>, and nothing else; the month must lie in
  1..12 and the day in 1..\<^verbatim>\<open>daysIn(month, year)\<close>. \<open>None\<close> is the error result.
\<close>

definition isDigit :: "char \<Rightarrow> bool" where
  "isDigit c = ((48::nat) \<le> of_char c \<and> (of_char c :: nat) \<le> 57)"

definition atoi :: "string \<Rightarrow> int" where
  "atoi ds = foldl (\<lambda>n c. 10 * n + (int (of_char c) - 48)) 0 ds"

definition isLeap :: "int \<Rightarrow> bool" where
  "isLeap year = (year mod 4 = 0 \<and> (year mod 100 \<noteq> 0 \<or> year mod 400 = 0))"

definition daysIn :: "int \<Rightarrow> int \<Rightarrow> int" where
  "daysIn m year =
     (if m = 2 \<and> isLeap year then 29
      else if m = 2 then 28
      else if m = 4 \<or> m = 6 \<or> m = 9 \<or> m = 11 then 30
      else 31)"

record Time =
  Year :: int
  Month :: int
  Day :: int

definition time_Parse :: "string \<Rightarrow> Time option" where
  "time_Parse s =
     (case s of
        [y1, y2, y3, y4, sep1, m1, m2, sep2, d1, d2] \<Rightarrow>
          if list_all isDigit [y1, y2, y3, y4, m1, m2, d1, d2]
             \<and> sep1 = CHR ''-'' \<and> sep2 = CHR ''-''
          then (let year = atoi [y1, y2, y3, y4]; month = atoi [m1, m2]; day = atoi [d1, d2]
                in if month \<le> 0 \<or> 12 < month then None
                   else if day < 1 \<or> day > daysIn month year then None
                   else Some \<lparr>Year = year, Month = month, Day = day\<rparr>)
          else None
      | _ \<Rightarrow> None)"

text \<open>\<^verbatim>\<open>strings.HasPrefix\<close> and \<^verbatim>\<open>strings.TrimPrefix\<close>.\<close>

definition HasPrefix :: "string \<Rightarrow> string \<Rightarrow> bool" where
  "HasPrefix s prefix = (length s \<ge> length prefix \<and> take (length prefix) s = prefix)"

definition TrimPrefix :: "string \<Rightarrow> string \<Rightarrow> string" where
  "TrimPrefix s prefix = (if HasPrefix s prefix then drop (length prefix) s else s)"

text \<open>
  \<^verbatim>\<open>strings.ToLower\<close>: a string of ASCII bytes has its letters \<^verbatim>\<open>A\<close>..\<^verbatim>\<open>Z\<close> shifted to
  \<^verbatim>\<open>a\<close>..\<^verbatim>\<open>z\<close>; any other string goes through \<^verbatim>\<open>Map(unicode.ToLower, s)\<close>, whose
  Unicode tables are the parameter \<open>unicode_lower\<close>.
\<close>

definition lower_byte :: "char \<Rightarrow> char" where
  "lower_byte c =
     (if (65::nat) \<le> of_char c \<and> (of_char c :: nat) \<le> 90
      then char_of ((of_char c :: nat) + 32) else c)"

definition ToLower :: "(string \<Rightarrow> string) \<Rightarrow> string \<Rightarrow> string" where
  "ToLower unicode_lower s =
     (if list_all (\<lambda>c. (of_char c :: nat) < 128) s then map lower_byte s
      else unicode_lower s)"

text \<open>
  \<^verbatim>\<open>textproto.MIMEHeader.Get\<close>: the first value stored under the key, or the empty string.
  The key \<^verbatim>\<open>Content-Type\<close> of the source is in canonical form already.
\<close>

definition MIMEHeader_Get :: "(string \<times> string list) list \<Rightarrow> string \<Rightarrow> string" where
  "MIMEHeader_Get h key =
     (case map_of h key of None \<Rightarrow> [] | Some [] \<Rightarrow> [] | Some (v # vs) \<Rightarrow> v)"

fun contains :: "string list \<Rightarrow> string \<Rightarrow> bool" where
  "contains [] e = False"
| "contains (a # s) e = (if a = e then True else contains s e)"

section \<open>The validators on strings, numbers and dates\<close>

definition EmailValidation :: ValidationFunc where
  "EmailValidation value =
     (if value = VNil \<or> value = VString [] then Inr no_error
      else case assert_string value of
        None \<Rightarrow> Inr no_error
      | Some email \<Rightarrow>
          if \<not> Regexp_MatchString emailRegex email
          then Inr (error_message ''Field must be a valid email address'')
          else Inr no_error)"

text \<open>\<^verbatim>\<open>PhoneValidation\<close> asserts \<^verbatim>\<open>value.(string)\<close> in the one-result form.\<close>

definition PhoneValidation :: ValidationFunc where
  "PhoneValidation value =
     (if value = VNil \<or> value = VString [] then Inr no_error
      else case must_string value of
        Inl p \<Rightarrow> Inl p
      | Inr s \<Rightarrow>
          if \<not> Regexp_MatchString phoneRegex s
          then Inr (error_message ''Invalid phone number format'')
          else Inr no_error)"

definition URLValidation :: ValidationFunc where
  "URLValidation value =
     (if value = VNil \<or> value = VString [] then Inr no_error
      else case assert_string value of
        None \<Rightarrow> Inr (error_message ''Value is not a string'')
      | Some urlStr \<Rightarrow>
          (case regexp_MatchString url_pattern urlStr of
             (match, Some err) \<Rightarrow> Inr (error_message (''Error while matching URL: '' @ err))
           | (match, None) \<Rightarrow>
               if \<not> match then Inr (error_message ''Value is not a valid URL'')
               else Inr no_error))"

definition StringValidation :: ValidationFunc where
  "StringValidation value =
     (if value = VNil \<or> value = VString [] then Inr no_error
      else case Kind_of value of
        reflect_String \<Rightarrow> Inr no_error
      | _ \<Rightarrow> Inr (error_message ''Field must be a string''))"

definition NumericValidation :: ValidationFunc where
  "NumericValidation value =
     (if value = VNil \<or> value = VString [] then Inr no_error
      else case Kind_of value of
        reflect_String \<Rightarrow>
          (case must_string value of
             Inl p \<Rightarrow> Inl p
           | Inr s \<Rightarrow>
               if \<not> fst (regexp_MatchString numeric_pattern s)
               then Inr (error_message ''Field must be numeric'')
               else Inr no_error)
      | reflect_Int \<Rightarrow> Inr no_error
      | reflect_Int8 \<Rightarrow> Inr no_error
      | reflect_Int16 \<Rightarrow> Inr no_error
      | reflect_Int32 \<Rightarrow> Inr no_error
      | reflect_Int64 \<Rightarrow> Inr no_error
      | reflect_Uint \<Rightarrow> Inr no_error
      | reflect_Uint8 \<Rightarrow> Inr no_error
      | reflect_Uint16 \<Rightarrow> Inr no_error
      | reflect_Uint32 \<Rightarrow> Inr no_error
      | reflect_Uint64 \<Rightarrow> Inr no_error
      | _ \<Rightarrow> Inr (error_message ''Field must be numeric''))"

definition DateValidation :: ValidationFunc where
  "DateValidation value =
     (if value = VNil \<or> value = VString [] then Inr no_error
      else case assert_string value of
        None \<Rightarrow> Inr (error_message ''Invalid date format'')
      | Some dateStr \<Rightarrow>
          (case regexp_MatchString date_pattern dateStr of
             (match, Some err) \<Rightarrow> Inr (error_message ''Invalid date format'')
           | (match, None) \<Rightarrow>
               if \<not> match then Inr (error_message ''Invalid date format'')
               else case time_Parse dateStr of
                 None \<Rightarrow> Inr (error_message ''Invalid date'')
               | Some date \<Rightarrow>
                   if Year date < 1 \<or> Year date > 9999
                   then Inr (error_message ''Invalid year'')
                   else if Month date < 1 \<or> Month date > 12
                   then Inr (error_message ''Invalid month'')
                   else if Day date < 1 \<or> Day date > 31
                   then Inr (error_message ''Invalid day'')
                   else Inr no_error))"

section \<open>The validators on uploaded files\<close>

text \<open>
  After a successful assertion \<^verbatim>\<open>file\<close> may still be a nil pointer; reading
  \<^verbatim>\<open>file.Header\<close> or \<^verbatim>\<open>file.Size\<close> then panics.
\<close>

definition ImageValidation :: ValidationFunc where
  "ImageValidation value =
     (if value = VNil \<or> value = VString [] then Inr no_error
      else case assert_FileHeader value of
        None \<Rightarrow> Inr (error_message ''Invalid file format'')
      | Some None \<Rightarrow> Inl NilPointerDereference
      | Some (Some file) \<Rightarrow>
          if \<not> HasPrefix (MIMEHeader_Get (Header file) ''Content-Type'') ''image/''
          then Inr (error_message ''File must be an image'')
          else Inr no_error)"

definition FileSizeValidation :: "int \<Rightarrow> ValidationFunc" where
  "FileSizeValidation maxSize value =
     (if value = VNil \<or> value = VString [] then Inr no_error
      else case assert_FileHeader value of
        None \<Rightarrow> Inr (error_message ''Invalid file format'')
      | Some None \<Rightarrow> Inl NilPointerDereference
      | Some (Some file) \<Rightarrow>
          if Size file > maxSize
          then Inr (error_message
                 (''File size must be less than '' @ Sprintf_d maxSize @ '' bytes''))
          else Inr no_error)"

definition allowedMimeTypes :: "string list" where
  "allowedMimeTypes = [''image/png'', ''image/jpg'', ''image/jpeg'', ''image/svg+xml'']"

definition ImageMimeValidation :: ValidationFunc where
  "ImageMimeValidation value =
     (if value = VNil \<or> value = VString [] then Inr no_error
      else case assert_FileHeader value of
        None \<Rightarrow> Inr (error_message ''Invalid file format'')
      | Some None \<Rightarrow> Inl NilPointerDereference
      | Some (Some file) \<Rightarrow>
          if \<not> contains allowedMimeTypes (MIMEHeader_Get (Header file) ''Content-Type'')
          then Inr (error_message ''File must be a PNG, JPG, JPEG or SVG'')
          else Inr no_error)"

definition FileValidation :: ValidationFunc where
  "FileValidation value =
     (if value = VNil \<or> value = VString [] then Inr no_error
      else case assert_FileHeader value of
        None \<Rightarrow> Inr (error_message ''Invalid file format'')
      | Some file \<Rightarrow> Inr no_error)"

definition FileTypeValidation ::
  "(string \<Rightarrow> string) \<Rightarrow> gvalue \<Rightarrow> string list \<Rightarrow> panic + ValidationErrorItem" where
  "FileTypeValidation unicode_lower value validTypes =
     (if value = VNil \<or> value = VString [] then Inr no_error
      else case assert_FileHeader value of
        None \<Rightarrow> Inr (error_message ''Invalid file format'')
      | Some None \<Rightarrow> Inl NilPointerDereference
      | Some (Some file) \<Rightarrow>
          (let fileType = ToLower unicode_lower
                 (TrimPrefix (MIMEHeader_Get (Header file) ''Content-Type'') ''application/'')
           in if \<not> contains validTypes fileType
              then Inr (error_message ''File type is not allowed'')
              else Inr no_error))"

section \<open>The example of the repository\<close>

text \<open>
  The struct \<^verbatim>\<open>User\<close> and the rules of \<^verbatim>\<open>ValidateUser\<close> from the example program: the
  field \<^verbatim>\<open>Name\<close> carries the json tag \<^verbatim>\<open>first_name\<close>, the first rule asks for \<^verbatim>\<open>name\<close>.
\<close>

definition User :: "string \<Rightarrow> string \<Rightarrow> gvalue" where
  "User Name Password =
     VStruct [(''first_name'', True, VString Name), (''password'', True, VString Password)]"

definition ValidateUser_rules :: "ValidationRule list" where
  "ValidateUser_rules =
     [\<lparr>rule_Field = ''name'', Description = ''Name'',
        Validations = [RequiredValidation, MinLengthValidation 3, MaxLengthValidation 50]\<rparr>,
      \<lparr>rule_Field = ''password'', Description = ''Password'',
        Validations = [RequiredValidation, MinLengthValidation 6, MaxLengthValidation 50]\<rparr>]"

definition ValidateUser :: "gvalue \<Rightarrow> panic + ValidationErrorItem list" where
  "ValidateUser user = Validate user ValidateUser_rules"

section \<open>Properties of the rule engine\<close>

text \<open>Both loops only ever append to the slice of errors they are given.\<close>

lemma run_validations_acc:
  "run_validations field v vs acc =
     (case run_validations field v vs [] of Inl p \<Rightarrow> Inl p | Inr es \<Rightarrow> Inr (acc @ es))"
proof (induction vs arbitrary: acc)
  case Nil
  show ?case by simp
next
  case (Cons validation vs)
  show ?case
  proof (cases "validation v")
    case (Inl p)
    then show ?thesis by simp
  next
    case (Inr e)
    show ?thesis
      using Cons.IH [of "acc @ [e\<lparr>Field := field\<rparr>]"] Cons.IH [of "[e\<lparr>Field := field\<rparr>]"]
        Cons.IH [of acc]
      by (simp add: Inr split: sum.splits)
  qed
qed

lemma run_validations_collects:
  assumes "map (\<lambda>validation. validation v) vs = map Inr outcomes"
  shows "run_validations field v vs acc =
           Inr (acc @ map (\<lambda>e. e\<lparr>Field := field\<rparr>) (filter (\<lambda>e. e \<noteq> no_error) outcomes))"
  using assms
proof (induction vs arbitrary: acc outcomes)
  case Nil
  then show ?case by simp
next
  case (Cons validation vs)
  then obtain e es where o: "outcomes = e # es" "validation v = Inr e"
      "map (\<lambda>validation. validation v) vs = map Inr es"
    by (cases outcomes) auto
  show ?case using Cons.IH [OF o(3)] by (simp add: o)
qed

lemma Validate_rules_acc:
  "Validate_rules data rules acc =
     (case Validate_rules data rules [] of Inl p \<Rightarrow> Inl p | Inr es \<Rightarrow> Inr (acc @ es))"
proof (induction rules arbitrary: acc)
  case Nil
  show ?case by simp
next
  case (Cons rule rules)
  show ?case
  proof (cases "getField data (rule_Field rule)")
    case (Inl p)
    then show ?thesis by simp
  next
    case (Inr r)
    obtain fieldValue err where r: "r = (fieldValue, err)" by (cases r)
    show ?thesis
    proof (cases err)
      case (Some m)
      show ?thesis
        using Cons.IH [of "acc @ [\<lparr>Field = rule_Field rule, Message = m\<rparr>]"]
          Cons.IH [of "[\<lparr>Field = rule_Field rule, Message = m\<rparr>]"]
        by (simp add: Inr r Some split: sum.splits)
    next
      case None
      show ?thesis
      proof (cases "run_validations (rule_Field rule) fieldValue (Validations rule) []")
        case (Inl p)
        then show ?thesis
          using run_validations_acc [of "rule_Field rule" fieldValue "Validations rule" acc]
          by (simp add: Inr r None)
      next
        case (Inr es)
        then show ?thesis
          using run_validations_acc [of "rule_Field rule" fieldValue "Validations rule" acc]
            Cons.IH [of "acc @ es"] Cons.IH [of es]
          by (simp add: \<open>getField data (rule_Field rule) = Inr r\<close> r None split: sum.splits)
      qed
    qed
  qed
qed

lemma Validate_rules_append:
  "Validate_rules data (rules1 @ rules2) acc =
     (case Validate_rules data rules1 acc of
        Inl p \<Rightarrow> Inl p
      | Inr es \<Rightarrow> Validate_rules data rules2 es)"
  by (induction rules1 arbitrary: acc) (auto split: sum.splits option.splits prod.splits)

lemma Validate_split:
  assumes "Validate data before = Inr errs1"
      and "Validate_rules data [rule] [] = Inr mid"
      and "Validate data after = Inr errs2"
  shows "Validate data (before @ [rule] @ after) = Inr (errs1 @ mid @ errs2)"
proof -
  have a: "Validate_rules data before [] = Inr errs1"
    using assms(1) by (simp only: Validate_def)
  have "Validate_rules data [rule] errs1 =
          (case Validate_rules data [rule] [] of Inl p \<Rightarrow> Inl p | Inr es \<Rightarrow> Inr (errs1 @ es))"
    by (rule Validate_rules_acc)
  then have b: "Validate_rules data [rule] errs1 = Inr (errs1 @ mid)"
    by (simp only: assms(2) sum.case)
  have "Validate_rules data after (errs1 @ mid) =
          (case Validate_rules data after [] of
             Inl p \<Rightarrow> Inl p | Inr es \<Rightarrow> Inr ((errs1 @ mid) @ es))"
    by (rule Validate_rules_acc)
  then have c: "Validate_rules data after (errs1 @ mid) = Inr (errs1 @ mid @ errs2)"
    using assms(3) by (simp only: Validate_def sum.case append_assoc)
  have "Validate_rules data (before @ [rule] @ after) [] = Inr (errs1 @ mid @ errs2)"
    by (simp only: Validate_rules_append a b c sum.case)
  then show ?thesis by (simp only: Validate_def)
qed


lemma Validate_rule_resolved:
  assumes "getField data (rule_Field rule) = Inr (fieldValue, None)"
      and "map (\<lambda>validation. validation fieldValue) (Validations rule) = map Inr outcomes"
  shows "Validate_rules data [rule] [] =
           Inr (map (\<lambda>e. e\<lparr>Field := rule_Field rule\<rparr>) (filter (\<lambda>e. e \<noteq> no_error) outcomes))"
  using run_validations_collects [OF assms(2), of "rule_Field rule" "[]"]
  by (simp add: assms(1))

lemma Validate_rule_not_found:
  assumes "getFieldByJsonTag data (rule_Field rule) = Inr VNil"
  shows "Validate_rules data [rule] [] =
           Inr [\<lparr>Field = rule_Field rule, Message = ''field not found: '' @ rule_Field rule\<rparr>]"
  by (simp add: getField_def assms)

lemma field_by_tag_no_match:
  "field \<notin> set (map fst fs) \<Longrightarrow> field_by_tag fs field = Inr VNil"
  by (induction fs field rule: field_by_tag.induct) auto

lemma field_by_tag_first_match:
  "field \<notin> set (map fst fs1) \<Longrightarrow>
   field_by_tag (fs1 @ (field, exported, v) # fs2) field =
     (if exported then Inr v else Inl UnexportedField)"
  by (induction fs1 field rule: field_by_tag.induct) auto

text \<open>
  Claim C1. \<^verbatim>\<open>Validate\<close> runs all validators of a rule in their declared order and does not
  stop at a failure: when the field of the rule resolves to a value on which the validators
  \<open>A\<close> and \<open>C\<close> of the rule \<open>[A, B, C]\<close> fail (return a non-zero item) and \<open>B\<close> passes
  (returns the zero item), the rule contributes A's item followed by C's item, both with the
  field name of the rule, and nothing else, between the output of the rules before it and
  the output of the rules after it. The lemma \<open>Validate_rule_resolved\<close> above is the same
  fact for a list of validators of any length.
\<close>

theorem Validate_runs_every_validator_in_order:
  assumes "getField data (rule_Field rule) = Inr (fieldValue, None)"
      and "Validations rule = [A, B, C]"
      and "A fieldValue = Inr a" and "a \<noteq> no_error"
      and "B fieldValue = Inr no_error"
      and "C fieldValue = Inr c" and "c \<noteq> no_error"
      and "Validate data before = Inr errs1"
      and "Validate data after = Inr errs2"
  shows "Validate data (before @ [rule] @ after) =
           Inr (errs1 @ [a\<lparr>Field := rule_Field rule\<rparr>, c\<lparr>Field := rule_Field rule\<rparr>] @ errs2)"
proof -
  have "map (\<lambda>validation. validation fieldValue) (Validations rule) = map Inr [a, no_error, c]"
    using assms(2,3,5,6) by simp
  from Validate_rule_resolved [OF assms(1) this]
  have "Validate_rules data [rule] [] =
          Inr [a\<lparr>Field := rule_Field rule\<rparr>, c\<lparr>Field := rule_Field rule\<rparr>]"
    using assms(4,7) by simp
  from Validate_split [OF assms(8) this assms(9)] show ?thesis .
qed

theorem Validate_runs_every_validator_in_order_witness:
  "Validate (VStruct [(''name'', True, VString ''ab'')])
     ([] @ [\<lparr>rule_Field = ''name'', Description = ''Name'',
              Validations = [MinLengthValidation 3, RequiredValidation, MaxLengthValidation 1]\<rparr>]
         @ []) =
   Inr ([] @ [\<lparr>Field = ''name'', Message = ''Field must be at least 3 characters long''\<rparr>,
              \<lparr>Field = ''name'', Message = ''Field must not exceed 1 characters''\<rparr>] @ [])"
proof -
  let ?data = "VStruct [(''name'', True, VString ''ab'')]"
  let ?rule = "\<lparr>rule_Field = ''name'', Description = ''Name'',
              Validations = [MinLengthValidation 3, RequiredValidation, MaxLengthValidation 1]\<rparr>"
  have 1: "getField ?data (rule_Field ?rule) = Inr (VString ''ab'', None)"
    by (simp add: getField_def getFieldByJsonTag_def)
  have 2: "Validations ?rule = [MinLengthValidation 3, RequiredValidation, MaxLengthValidation 1]"
    by simp
  have 3: "MinLengthValidation 3 (VString ''ab'') =
             Inr (error_message ''Field must be at least 3 characters long'')"
    by code_simp
  have 4: "error_message ''Field must be at least 3 characters long'' \<noteq> no_error"
    by (simp add: error_message_def no_error_def)
  have 5: "RequiredValidation (VString ''ab'') = Inr no_error"
    by (simp add: RequiredValidation_def must_string_def)
  have 6: "MaxLengthValidation 1 (VString ''ab'') =
             Inr (error_message ''Field must not exceed 1 characters'')"
    by code_simp
  have 7: "error_message ''Field must not exceed 1 characters'' \<noteq> no_error"
    by (simp add: error_message_def no_error_def)
  have 8: "Validate ?data [] = Inr []"
    by (simp add: Validate_def)
  show ?thesis
    using Validate_runs_every_validator_in_order [OF 1 2 3 4 5 6 7 8 8]
    by (simp add: error_message_def)
qed

text \<open>
  Claim C2. A rule whose field name is the json tag of no field of the record (the record
  being what the pointer chain of \<open>data\<close> ends in, with no fields at all when that is not a
  struct) contributes exactly one item, with the field name of the rule and the message
  \<^verbatim>\<open>field not found: <name>\<close>, and the next rules are processed as usual. The validators of
  the rule are arbitrary here and do not occur in the result: none of them is run.
\<close>

theorem Validate_unmatched_field:
  assumes "rule_Field rule \<notin> set (map fst (struct_fields (deref data)))"
      and "Validate data before = Inr errs1"
      and "Validate data after = Inr errs2"
  shows "Validate data (before @ [rule] @ after) =
           Inr (errs1
                @ [\<lparr>Field = rule_Field rule, Message = ''field not found: '' @ rule_Field rule\<rparr>]
                @ errs2)"
proof -
  have "getFieldByJsonTag data (rule_Field rule) = Inr VNil"
    using field_by_tag_no_match [OF assms(1)] by (simp add: getFieldByJsonTag_def Let_def)
  from Validate_split [OF assms(2) Validate_rule_not_found [OF this] assms(3)]
  show ?thesis .
qed

theorem Validate_unmatched_field_witness:
  "ValidateUser_rules = [] @ [hd ValidateUser_rules] @ tl ValidateUser_rules
   \<and> rule_Field (hd ValidateUser_rules) = ''name''
   \<and> ''name'' \<notin> set (map fst (struct_fields (deref (User ''John'' ''123456''))))
   \<and> ValidateUser (User ''John'' ''123456'') =
       Inr [\<lparr>Field = ''name'', Message = ''field not found: name''\<rparr>]"
proof -
  let ?data = "User ''John'' ''123456''"
  let ?rule = "hd ValidateUser_rules"
  have f: "rule_Field ?rule = ''name''"
    by (simp add: ValidateUser_rules_def)
  have 1: "rule_Field ?rule \<notin> set (map fst (struct_fields (deref ?data)))"
    by (simp add: f User_def)
  have 2: "Validate ?data [] = Inr []"
    by (simp add: Validate_def)
  have 3: "Validate ?data (tl ValidateUser_rules) = Inr []"
    by code_simp
  have 4: "ValidateUser_rules = [] @ [?rule] @ tl ValidateUser_rules"
    by (simp add: ValidateUser_rules_def)
  have "ValidateUser ?data = Validate ?data ([] @ [?rule] @ tl ValidateUser_rules)"
    using 4 by (simp only: ValidateUser_def)
  then show ?thesis
    using Validate_unmatched_field [OF 1 2 3] 1 4 f by simp
qed

text \<open>
  Claim C9. When the record is a struct (or a pointer to one) and the field that resolution
  finds for the rule, the first one whose json tag equals the field name of the rule, is an
  exported field holding a nil interface, \<^verbatim>\<open>Validate\<close> reports
  \<^verbatim>\<open>field not found: <name>\<close> exactly as it does for an absent field (compare
  \<open>Validate_unmatched_field\<close>): \<^verbatim>\<open>getField\<close> signals not-found by a nil result.
\<close>

theorem Validate_nil_field_is_not_found:
  assumes "deref data = Concrete (VStruct (fs1 @ (rule_Field rule, True, VNil) # fs2))"
      and "rule_Field rule \<notin> set (map fst fs1)"
      and "Validate data before = Inr errs1"
      and "Validate data after = Inr errs2"
  shows "Validate data (before @ [rule] @ after) =
           Inr (errs1
                @ [\<lparr>Field = rule_Field rule, Message = ''field not found: '' @ rule_Field rule\<rparr>]
                @ errs2)"
proof -
  have "getFieldByJsonTag data (rule_Field rule) = Inr VNil"
    using field_by_tag_first_match [OF assms(2), of True VNil fs2]
    by (simp add: getFieldByJsonTag_def assms(1))
  from Validate_split [OF assms(3) Validate_rule_not_found [OF this] assms(4)]
  show ?thesis .
qed

theorem Validate_nil_field_is_not_found_witness:
  "Validate (VPtr (Some (VStruct [(''id'', True, VInt T_int 7), (''note'', True, VNil)])))
     ([] @ [\<lparr>rule_Field = ''note'', Description = ''Note'',
              Validations = [RequiredValidation]\<rparr>] @ []) =
   Inr ([] @ [\<lparr>Field = ''note'', Message = ''field not found: note''\<rparr>] @ [])"
proof -
  let ?data = "VPtr (Some (VStruct [(''id'', True, VInt T_int 7), (''note'', True, VNil)]))"
  let ?rule = "\<lparr>rule_Field = ''note'', Description = ''Note'',
              Validations = [RequiredValidation]\<rparr>"
  have 1: "deref ?data =
             Concrete (VStruct ([(''id'', True, VInt T_int 7)] @ (rule_Field ?rule, True, VNil) # []))"
    by simp
  have 2: "rule_Field ?rule \<notin> set (map fst [(''id'', True, VInt T_int 7)])"
    by simp
  have 3: "Validate ?data [] = Inr []"
    by (simp add: Validate_def)
  show ?thesis
    using Validate_nil_field_is_not_found [OF 1 2 3 3] by simp
qed

section \<open>The matcher\<close>

text \<open>
  \<open>Regexp_MatchString\<close> accepts exactly the strings that the pattern denotes: matching by
  derivatives is matching of the whole string.
\<close>

lemma nullable_strings_of: "nullable r \<longleftrightarrow> [] \<in> strings_of r"
  by (induction r) (auto intro: no_repetition)

lemma repetitions_nonempty:
  assumes "x \<in> repetitions L" and "x = c # w"
  shows "\<exists>u v. w = u @ v \<and> c # u \<in> L \<and> v \<in> repetitions L"
  using assms
proof (induction arbitrary: w rule: repetitions.induct)
  case no_repetition
  then show ?case by simp
next
  case (one_more u v)
  show ?case
  proof (cases u)
    case Nil
    with one_more show ?thesis by simp
  next
    case (Cons a u')
    with one_more.prems have "a = c" and "w = u' @ v" by simp_all
    with one_more.hyps Cons show ?thesis by blast
  qed
qed

lemma repetitions_Cons:
  "c # w \<in> repetitions L \<longleftrightarrow> (\<exists>u v. w = u @ v \<and> c # u \<in> L \<and> v \<in> repetitions L)"
proof
  assume "c # w \<in> repetitions L"
  then show "\<exists>u v. w = u @ v \<and> c # u \<in> L \<and> v \<in> repetitions L"
    by (rule repetitions_nonempty) simp
next
  assume "\<exists>u v. w = u @ v \<and> c # u \<in> L \<and> v \<in> repetitions L"
  then obtain u v where "w = u @ v" "c # u \<in> L" "v \<in> repetitions L" by blast
  then show "c # w \<in> repetitions L"
    using one_more [of "c # u" L v] by simp
qed

lemma strings_of_deriv: "w \<in> strings_of (deriv c r) \<longleftrightarrow> c # w \<in> strings_of r"
proof (induction r arbitrary: w)
  case (Seq r s)
  have "c # w \<in> strings_of (Seq r s) \<longleftrightarrow>
          ([] \<in> strings_of r \<and> c # w \<in> strings_of s)
          \<or> (\<exists>u v. w = u @ v \<and> c # u \<in> strings_of r \<and> v \<in> strings_of s)"
    by (auto simp add: Cons_eq_append_conv)
  then show ?case
    using Seq by (auto simp add: nullable_strings_of)
next
  case (Star r)
  then show ?case by (auto simp add: repetitions_Cons)
qed auto

lemma Regexp_MatchString_strings_of: "Regexp_MatchString re s \<longleftrightarrow> s \<in> strings_of re"
  by (induction s arbitrary: re) (simp_all add: nullable_strings_of strings_of_deriv)

section \<open>The scenarios of the specification\<close>

text \<open>
  The concrete scenarios 1, 4, 5 and 6 of the specification, evaluated on the model (the
  messages as the source spells them).
\<close>

lemma scenario_short_name:
  "Validate (VStruct [(''name'', True, VString ''Jo''), (''password'', True, VString ''123456'')])
     ValidateUser_rules =
   Inr [\<lparr>Field = ''name'', Message = ''Field must be at least 3 characters long''\<rparr>]"
  by code_simp

lemma scenario_email:
  "EmailValidation (VString ''not-an-email'') =
     Inr (error_message ''Field must be a valid email address'')"
  "EmailValidation (VString ''a@b.co'') = Inr no_error"
  by code_simp+

lemma scenario_image_gif:
  "ImageMimeValidation
     (VFile (Some \<lparr>Filename = ''a.gif'', Header = [(''Content-Type'', [''image/gif''])],
                   Size = 10\<rparr>)) =
     Inr (error_message ''File must be a PNG, JPG, JPEG or SVG'')"
  "ImageValidation
     (VFile (Some \<lparr>Filename = ''a.gif'', Header = [(''Content-Type'', [''image/gif''])],
                   Size = 10\<rparr>)) = Inr no_error"
  by code_simp+

lemma scenario_file_size:
  "FileSizeValidation 1000
     (VFile (Some \<lparr>Filename = ''a.bin'', Header = [], Size = 1500\<rparr>)) =
     Inr (error_message ''File size must be less than 1000 bytes'')"
  "FileSizeValidation 1000
     (VFile (Some \<lparr>Filename = ''a.bin'', Header = [], Size = 500\<rparr>)) = Inr no_error"
  by code_simp+

section \<open>Properties of the validators\<close>

lemmas validator_defs =
  MinLengthValidation_def MaxLengthValidation_def EmailValidation_def PhoneValidation_def
  URLValidation_def StringValidation_def NumericValidation_def DateValidation_def
  ImageValidation_def FileSizeValidation_def ImageMimeValidation_def FileValidation_def
  FileTypeValidation_def

text \<open>
  Claim C3. Every validator of the library other than \<^verbatim>\<open>RequiredValidation\<close> returns the zero
  item (it passes) on an absent value, that is on nil and on the empty string, whatever its
  configuration; \<^verbatim>\<open>RequiredValidation\<close> fails on both.
\<close>

theorem absent_value_passes:
  assumes "value = VNil \<or> value = VString []"
  shows "MinLengthValidation minLength value = Inr no_error
       \<and> MaxLengthValidation maxLength value = Inr no_error
       \<and> EmailValidation value = Inr no_error
       \<and> PhoneValidation value = Inr no_error
       \<and> URLValidation value = Inr no_error
       \<and> StringValidation value = Inr no_error
       \<and> NumericValidation value = Inr no_error
       \<and> DateValidation value = Inr no_error
       \<and> ImageValidation value = Inr no_error
       \<and> FileSizeValidation maxSize value = Inr no_error
       \<and> ImageMimeValidation value = Inr no_error
       \<and> FileValidation value = Inr no_error
       \<and> FileTypeValidation unicode_lower value validTypes = Inr no_error
       \<and> RequiredValidation value = Inr (error_message ''Field is required'')
       \<and> error_message ''Field is required'' \<noteq> no_error"
  using assms
  by (auto simp add: validator_defs RequiredValidation_def error_message_def no_error_def)

theorem absent_value_passes_witness:
  "list_all
     (\<lambda>value.
        (value = VNil \<or> value = VString [])
        \<and> MinLengthValidation 3 value = Inr no_error
        \<and> MaxLengthValidation 50 value = Inr no_error
        \<and> EmailValidation value = Inr no_error
        \<and> PhoneValidation value = Inr no_error
        \<and> URLValidation value = Inr no_error
        \<and> StringValidation value = Inr no_error
        \<and> NumericValidation value = Inr no_error
        \<and> DateValidation value = Inr no_error
        \<and> ImageValidation value = Inr no_error
        \<and> FileSizeValidation 1000 value = Inr no_error
        \<and> ImageMimeValidation value = Inr no_error
        \<and> FileValidation value = Inr no_error
        \<and> FileTypeValidation id value [''pdf''] = Inr no_error
        \<and> RequiredValidation value = Inr (error_message ''Field is required''))
     [VNil, VString []]"
  using absent_value_passes [of VNil 3 50 1000 id "[''pdf'']"]
    absent_value_passes [of "VString []" 3 50 1000 id "[''pdf'']"]
  by simp

text \<open>
  Claim C4, as the code has it. For the record \<^verbatim>\<open>{name: "", password: ""}\<close> and the rules
  of \<^verbatim>\<open>ValidateUser\<close> the output has two items, one per field, both from
  \<^verbatim>\<open>RequiredValidation\<close>: the min-length and max-length validators return the zero item on
  the empty string, through their guard \<^verbatim>\<open>value == ""\<close>, before any length is compared.
\<close>

theorem empty_fields_only_required:
  "Validate (VStruct [(''name'', True, VString []), (''password'', True, VString [])])
     ValidateUser_rules =
   Inr [\<lparr>Field = ''name'', Message = ''Field is required''\<rparr>,
        \<lparr>Field = ''password'', Message = ''Field is required''\<rparr>]
   \<and> MinLengthValidation 3 (VString []) = Inr no_error
   \<and> MinLengthValidation 6 (VString []) = Inr no_error
   \<and> MaxLengthValidation 50 (VString []) = Inr no_error"
  by (simp add: Validate_def ValidateUser_rules_def getField_def getFieldByJsonTag_def
      RequiredValidation_def MinLengthValidation_def MaxLengthValidation_def
      error_message_def no_error_def)

text \<open>The output does not have the four items that claim C4 states.\<close>

theorem empty_fields_counterexample:
  "map_sum id length
     (Validate (VStruct [(''name'', True, VString []), (''password'', True, VString [])])
        ValidateUser_rules) \<noteq> Inr 4"
  by (simp add: Validate_def ValidateUser_rules_def getField_def getFieldByJsonTag_def
      RequiredValidation_def MinLengthValidation_def MaxLengthValidation_def
      error_message_def no_error_def)

text \<open>
  Claim C5 says that every validator returns an item on every value. \<^verbatim>\<open>PhoneValidation\<close>
  does not: on a value that is not a \<^verbatim>\<open>string\<close>, here the \<^verbatim>\<open>int\<close> 5, its assertion
  \<^verbatim>\<open>value.(string)\<close> panics, where \<^verbatim>\<open>EmailValidation\<close> and \<^verbatim>\<open>URLValidation\<close> test the
  assertion's second result and return an item.
\<close>

theorem Phone_panics_on_non_string:
  "PhoneValidation (VInt T_int 5) = Inl InterfaceConversion
   \<and> EmailValidation (VInt T_int 5) = Inr no_error
   \<and> URLValidation (VInt T_int 5) = Inr (error_message ''Value is not a string'')"
  by (simp add: validator_defs must_string_def)

text \<open>A date that \<^verbatim>\<open>time.Parse\<close> accepts has its month in 1..12 and its day in 1..31.\<close>

lemma time_Parse_Some:
  assumes "time_Parse s = Some date"
  shows "1 \<le> Month date \<and> Month date \<le> 12 \<and> 1 \<le> Day date \<and> Day date \<le> 31"
proof -
  have d: "daysIn m y \<le> 31" for m y by (simp add: daysIn_def)
  show ?thesis
    using assms d [of "Month date" "Year date"]
    by (auto simp add: time_Parse_def Let_def split: list.splits if_splits)
qed

text \<open>
  Claim C6. \<^verbatim>\<open>DateValidation\<close> rejects \<^verbatim>\<open>"2023-02-30"\<close> with the message
  \<^verbatim>\<open>Invalid date\<close> (the source capitalises its messages): the string matches the pattern
  \<^verbatim>\<open>^\d{4}-\d{2}-\d{2}$\<close>, \<^verbatim>\<open>time.Parse\<close> refuses it, and its day field reads 30, which the
  guard \<^verbatim>\<open>date.Day() < 1 || date.Day() > 31\<close> would let through. On no value at all does
  that guard produce its message \<^verbatim>\<open>Invalid day\<close>: the dates that do not exist are rejected
  by parsing.
\<close>

theorem Date_rejects_february_30:
  "DateValidation (VString ''2023-02-30'') = Inr (error_message ''Invalid date'')
   \<and> error_message ''Invalid date'' \<noteq> no_error
   \<and> regexp_MatchString date_pattern ''2023-02-30'' = (True, None)
   \<and> time_Parse ''2023-02-30'' = None
   \<and> 1 \<le> atoi ''30'' \<and> atoi ''30'' \<le> 31
   \<and> (\<forall>value. DateValidation value \<noteq> Inr (error_message ''Invalid day''))"
proof -
  have m: "regexp_MatchString date_pattern ''2023-02-30'' = (True, None)"
    by code_simp
  have p: "time_Parse ''2023-02-30'' = None"
    by code_simp
  have r: "DateValidation (VString ''2023-02-30'') = Inr (error_message ''Invalid date'')"
    by (simp add: DateValidation_def m p)
  have a: "1 \<le> atoi ''30'' \<and> atoi ''30'' \<le> 31"
    by code_simp
  have e: "error_message ''Invalid date'' \<noteq> no_error"
    by (simp add: error_message_def no_error_def)
  have g: "DateValidation v \<noteq> Inr (error_message ''Invalid day'')" for v
    by (auto simp add: DateValidation_def regexp_MatchString_def error_message_def no_error_def
        split: option.splits dest!: time_Parse_Some)
  show ?thesis using m p r a e g by blast
qed

text \<open>
  Claim C7. On a value that is neither nil, nor the empty string, nor a
  \<^verbatim>\<open>*multipart.FileHeader\<close>, each of the five file validators fails with the message
  \<^verbatim>\<open>Invalid file format\<close> (capitalised in the source).
\<close>

theorem file_validators_reject_other_values:
  assumes "value \<noteq> VNil" and "value \<noteq> VString []" and "\<forall>file. value \<noteq> VFile file"
  shows "ImageValidation value = Inr (error_message ''Invalid file format'')
       \<and> ImageMimeValidation value = Inr (error_message ''Invalid file format'')
       \<and> FileValidation value = Inr (error_message ''Invalid file format'')
       \<and> FileSizeValidation maxSize value = Inr (error_message ''Invalid file format'')
       \<and> FileTypeValidation unicode_lower value validTypes =
           Inr (error_message ''Invalid file format'')
       \<and> error_message ''Invalid file format'' \<noteq> no_error"
proof -
  have "assert_FileHeader value = None"
    using assms(3) by (cases "value") simp_all
  then show ?thesis
    using assms(1,2) by (simp add: validator_defs error_message_def no_error_def)
qed

theorem file_validators_reject_other_values_witness:
  "VString ''photo.png'' \<noteq> VNil \<and> VString ''photo.png'' \<noteq> VString []
   \<and> ImageValidation (VString ''photo.png'') = Inr (error_message ''Invalid file format'')
   \<and> ImageMimeValidation (VString ''photo.png'') = Inr (error_message ''Invalid file format'')
   \<and> FileValidation (VString ''photo.png'') = Inr (error_message ''Invalid file format'')
   \<and> FileSizeValidation 1000 (VString ''photo.png'') =
       Inr (error_message ''Invalid file format'')
   \<and> FileTypeValidation id (VString ''photo.png'') [''png''] =
       Inr (error_message ''Invalid file format'')"
  using file_validators_reject_other_values [of "VString ''photo.png''" 1000 id "[''png'']"]
  by simp

text \<open>
  Claim C8. On a value that is not nil and whose dynamic type is not \<^verbatim>\<open>string\<close>,
  \<^verbatim>\<open>EmailValidation\<close> passes, while \<^verbatim>\<open>URLValidation\<close> fails with
  \<^verbatim>\<open>Value is not a string\<close>.
\<close>

theorem Email_passes_non_strings:
  assumes "value \<noteq> VNil" and "\<forall>s. value \<noteq> VString s"
  shows "EmailValidation value = Inr no_error
       \<and> URLValidation value = Inr (error_message ''Value is not a string'')
       \<and> error_message ''Value is not a string'' \<noteq> no_error"
proof -
  have "assert_string value = None"
    using assms(2) by (cases "value") simp_all
  then show ?thesis
    using assms by (simp add: validator_defs error_message_def no_error_def)
qed

theorem Email_passes_non_strings_witness:
  "VInt T_int 42 \<noteq> VNil
   \<and> EmailValidation (VInt T_int 42) = Inr no_error
   \<and> URLValidation (VInt T_int 42) = Inr (error_message ''Value is not a string'')"
  using Email_passes_non_strings [of "VInt T_int 42"]
  by simp

text \<open>
  Claim C10. \<^verbatim>\<open>FileTypeValidation\<close> trims the prefix \<^verbatim>\<open>application/\<close> before it lowers the
  case. A content type that does not begin with exactly these bytes, such as one that
  begins with \<^verbatim>\<open>Application/\<close>, is therefore compared whole, in lower case, with the valid
  types: \<^verbatim>\<open>Application/PDF\<close> against \<^verbatim>\<open>["pdf"]\<close> fails with \<^verbatim>\<open>File type is not allowed\<close>
  (capitalised in the source), \<^verbatim>\<open>application/PDF\<close> passes.
\<close>

theorem FileType_strips_prefix_case_sensitively:
  "(\<not> HasPrefix (MIMEHeader_Get (Header file) ''Content-Type'') ''application/'' \<longrightarrow>
      FileTypeValidation unicode_lower (VFile (Some file)) validTypes =
        (if contains validTypes
              (ToLower unicode_lower (MIMEHeader_Get (Header file) ''Content-Type''))
         then Inr no_error else Inr (error_message ''File type is not allowed'')))
   \<and> FileTypeValidation unicode_lower
         (VFile (Some \<lparr>Filename = fname, Header = [(''Content-Type'', [''Application/PDF''])],
                       Size = n\<rparr>)) [''pdf''] =
       Inr (error_message ''File type is not allowed'')
   \<and> FileTypeValidation unicode_lower
         (VFile (Some \<lparr>Filename = fname, Header = [(''Content-Type'', [''application/PDF''])],
                       Size = n\<rparr>)) [''pdf''] =
       Inr no_error
   \<and> error_message ''File type is not allowed'' \<noteq> no_error"
proof -
  have g: "\<not> HasPrefix (MIMEHeader_Get (Header file) ''Content-Type'') ''application/'' \<longrightarrow>
      FileTypeValidation unicode_lower (VFile (Some file)) validTypes =
        (if contains validTypes
              (ToLower unicode_lower (MIMEHeader_Get (Header file) ''Content-Type''))
         then Inr no_error else Inr (error_message ''File type is not allowed''))"
    by (simp add: FileTypeValidation_def TrimPrefix_def)
  have u: "ToLower unicode_lower (TrimPrefix ''Application/PDF'' ''application/'') =
             ''application/pdf''"
    by code_simp
  have l: "ToLower unicode_lower (TrimPrefix ''application/PDF'' ''application/'') = ''pdf''"
    by code_simp
  have a: "FileTypeValidation unicode_lower
         (VFile (Some \<lparr>Filename = fname, Header = [(''Content-Type'', [''Application/PDF''])],
                       Size = n\<rparr>)) [''pdf''] =
       Inr (error_message ''File type is not allowed'')"
    by (simp add: FileTypeValidation_def MIMEHeader_Get_def u)
  have b: "FileTypeValidation unicode_lower
         (VFile (Some \<lparr>Filename = fname, Header = [(''Content-Type'', [''application/PDF''])],
                       Size = n\<rparr>)) [''pdf''] =
       Inr no_error"
    by (simp add: FileTypeValidation_def MIMEHeader_Get_def l)
  have e: "error_message ''File type is not allowed'' \<noteq> no_error"
    by (simp add: error_message_def no_error_def)
  show ?thesis using g a b e by blast
qed

theorem FileType_strips_prefix_case_sensitively_witness:
  "\<not> HasPrefix (MIMEHeader_Get [(''Content-Type'', [''Application/PDF''])] ''Content-Type'')
        ''application/''
   \<and> ToLower id (MIMEHeader_Get [(''Content-Type'', [''Application/PDF''])] ''Content-Type'') =
       ''application/pdf''
   \<and> FileTypeValidation id
         (VFile (Some \<lparr>Filename = ''a.pdf'',
                       Header = [(''Content-Type'', [''Application/PDF''])], Size = 10\<rparr>))
         [''pdf'', ''application/pdf''] =
       Inr no_error"
proof -
  let ?file = "\<lparr>Filename = ''a.pdf'', Header = [(''Content-Type'', [''Application/PDF''])],
                Size = 10\<rparr>"
  have c: "MIMEHeader_Get (Header ?file) ''Content-Type'' = ''Application/PDF''"
    by (simp add: MIMEHeader_Get_def)
  have h: "\<not> HasPrefix ''Application/PDF'' ''application/''"
    by (simp add: HasPrefix_def)
  have t: "ToLower id ''Application/PDF'' = ''application/pdf''"
    by code_simp
  show ?thesis
    using FileType_strips_prefix_case_sensitively
            [of ?file id "[''pdf'', ''application/pdf'']" "''a.pdf''" 10] c h t
    by (simp add: MIMEHeader_Get_def)
qed

end
